theory Spec2Isabelle
  imports Complex_Main
begin

section \<open>Values the chart package works on\<close>

text \<open>
  The Go sources of the style cascade (\<^verbatim>\<open>Style\<close>), of the text wrapping
  (\<^verbatim>\<open>text.WrapFit\<close>, \<^verbatim>\<open>WrapFitWord\<close>, \<^verbatim>\<open>WrapFitRune\<close>) and of the annotation
  series are embedded as HOL functions.

  \<^item> A \<^verbatim>\<open>float64\<close> is a \<^typ>\<open>real\<close>. The code only copies these values and compares
    them with zero (\<^verbatim>\<open>== 0\<close>, \<^verbatim>\<open>!= 0\<close>, \<^verbatim>\<open>>= 0\<close>); under those three tests a NaN
    behaves like a negative number and \<^verbatim>\<open>-0.0\<close> like \<^verbatim>\<open>0\<close>.
  \<^item> A Go \<^verbatim>\<open>int\<close> is an \<^typ>\<open>int\<close>; the one place where the code computes with
    them writes the wrap-around out (\<open>wrap_int\<close>).
  \<^item> A Go \<^verbatim>\<open>string\<close> is a \<^typ>\<open>string\<close> whose elements are the code points that
    \<^verbatim>\<open>for _, c := range value\<close> yields, so \<^verbatim>\<open>string(c)\<close> is the one-element list
    \<open>[c]\<close> and \<^verbatim>\<open>+\<close> on strings is \<open>@\<close>. A \<^typ>\<open>char\<close> has 256 values, so
    the texts covered are those of code points below 256; the code inspects a code point
    only by comparing it with newline, space, tab and carriage return. Byte sequences that
    are not well-formed UTF-8, which \<^verbatim>\<open>range\<close> would read as U+FFFD, are not represented.
  \<^item> A slice that the code tests with \<^verbatim>\<open>len\<close> is a \<^typ>\<open>'a list option\<close>, \<open>None\<close>
    being \<^verbatim>\<open>nil\<close>; a pointer is an \<open>option\<close> as well.
  \<^item> The enumerations are the integer types the source declares, so that a value
    outside the declared constants can be written.
\<close>

record Box =
  Top :: int
  Left :: int
  Right :: int
  Bottom :: int

type_synonym textHorizontalAlign = int
type_synonym textVerticalAlign = int
type_synonym textWrap = int

definition TextHorizontalAlignUnset :: textHorizontalAlign where
  "TextHorizontalAlignUnset = 0"

definition TextHorizontalAlignLeft :: textHorizontalAlign where
  "TextHorizontalAlignLeft = 1"

definition TextHorizontalAlignCenter :: textHorizontalAlign where
  "TextHorizontalAlignCenter = 2"

definition TextHorizontalAlignRight :: textHorizontalAlign where
  "TextHorizontalAlignRight = 3"

definition TextWrapUnset :: textWrap where
  "TextWrapUnset = 0"

definition TextWrapNone :: textWrap where
  "TextWrapNone = 1"

definition TextWrapWord :: textWrap where
  "TextWrapWord = 2"

definition TextWrapRune :: textWrap where
  "TextWrapRune = 3"

definition TextVerticalAlignUnset :: textVerticalAlign where
  "TextVerticalAlignUnset = 0"

definition TextVerticalAlignBaseline :: textVerticalAlign where
  "TextVerticalAlignBaseline = 1"

definition TextVerticalAlignBottom :: textVerticalAlign where
  "TextVerticalAlignBottom = 2"

definition TextVerticalAlignMiddle :: textVerticalAlign where
  "TextVerticalAlignMiddle = 3"

definition TextVerticalAlignMiddleBaseline :: textVerticalAlign where
  "TextVerticalAlignMiddleBaseline = 4"

definition TextVerticalAlignTop :: textVerticalAlign where
  "TextVerticalAlignTop = 5"

definition len :: "'a list option \<Rightarrow> nat" where
  "len xs = (case xs of None \<Rightarrow> 0 | Some l \<Rightarrow> length l)"

text \<open>
  \<^verbatim>\<open>type Style struct\<close>. The colour type \<^verbatim>\<open>drawing.Color\<close> is \<open>'c\<close> and the font
  that \<^verbatim>\<open>*truetype.Font\<close> points to is \<open>'f\<close>: both are declared outside the files
  embedded here and the style code never looks inside them.
\<close>

record ('c, 'f) Style =
  Show :: bool
  Padding :: Box
  StrokeWidth :: real
  StrokeColor :: 'c
  StrokeDashArray :: "real list option"
  FillColor :: 'c
  FontSize :: real
  FontColor :: 'c
  Font :: "'f option"
  TextHorizontalAlign :: textHorizontalAlign
  TextVerticalAlign :: textVerticalAlign
  TextWrap :: textWrap

text \<open>
  What the embedded files use and do not declare: the methods of \<^verbatim>\<open>drawing.Color\<close>
  and \<^verbatim>\<open>Box\<close>, the font's family name, the package's default constants, the zero
  value of a colour and the \<^verbatim>\<open>fmt\<close> verb \<^verbatim>\<open>%0.2f\<close>. They are the fields of one
  parameter \<open>K\<close> that every function below takes; a theorem about an arbitrary \<open>K\<close>
  holds for whatever the package declares.
\<close>

record ('c, 'f) pkg =
  Color_IsZero :: "'c \<Rightarrow> bool"
  Color_String :: "'c \<Rightarrow> string"
  Color_zero :: 'c
  ColorTransparent :: 'c
  Font_Name :: "'f \<Rightarrow> string"
  Box_IsZero :: "Box \<Rightarrow> bool"
  Box_String :: "Box \<Rightarrow> string"
  Box_Width :: "Box \<Rightarrow> int"
  Sprintf_2f :: "real \<Rightarrow> string"
  DefaultStrokeWidth :: real
  DefaultFontSize :: real
  DefaultAnnotationFillColor :: 'c
  DefaultAnnotationFontSize :: real
  DefaultAnnotationPadding :: Box

section \<open>Style\<close>

definition IsZero :: "('c, 'f) pkg \<Rightarrow> ('c, 'f) Style \<Rightarrow> bool" where
  "IsZero K s \<longleftrightarrow>
     Color_IsZero K (StrokeColor s) \<and> Color_IsZero K (FillColor s) \<and> StrokeWidth s = 0 \<and>
     Color_IsZero K (FontColor s) \<and> FontSize s = 0 \<and> Font s = None"

text \<open>
  The accessors. A variadic parameter \<^verbatim>\<open>defaults ...T\<close> is the list of the arguments
  passed; \<^verbatim>\<open>defaults[0]\<close> is read only under \<^verbatim>\<open>len(defaults) > 0\<close>.
\<close>

definition GetStrokeColor :: "('c, 'f) pkg \<Rightarrow> ('c, 'f) Style \<Rightarrow> 'c list \<Rightarrow> 'c" where
  "GetStrokeColor K s defaults =
     (if Color_IsZero K (StrokeColor s)
      then (if length defaults > 0 then defaults ! 0 else ColorTransparent K)
      else StrokeColor s)"

definition GetFillColor :: "('c, 'f) pkg \<Rightarrow> ('c, 'f) Style \<Rightarrow> 'c list \<Rightarrow> 'c" where
  "GetFillColor K s defaults =
     (if Color_IsZero K (FillColor s)
      then (if length defaults > 0 then defaults ! 0 else ColorTransparent K)
      else FillColor s)"

definition GetStrokeWidth :: "('c, 'f) pkg \<Rightarrow> ('c, 'f) Style \<Rightarrow> real list \<Rightarrow> real" where
  "GetStrokeWidth K s defaults =
     (if StrokeWidth s = 0
      then (if length defaults > 0 then defaults ! 0 else DefaultStrokeWidth K)
      else StrokeWidth s)"

definition GetStrokeDashArray ::
  "('c, 'f) pkg \<Rightarrow> ('c, 'f) Style \<Rightarrow> real list option list \<Rightarrow> real list option" where
  "GetStrokeDashArray K s defaults =
     (if len (StrokeDashArray s) = 0
      then (if length defaults > 0 then defaults ! 0 else None)
      else StrokeDashArray s)"

definition GetFontSize :: "('c, 'f) pkg \<Rightarrow> ('c, 'f) Style \<Rightarrow> real list \<Rightarrow> real" where
  "GetFontSize K s defaults =
     (if FontSize s = 0
      then (if length defaults > 0 then defaults ! 0 else DefaultFontSize K)
      else FontSize s)"

definition GetFontColor :: "('c, 'f) pkg \<Rightarrow> ('c, 'f) Style \<Rightarrow> 'c list \<Rightarrow> 'c" where
  "GetFontColor K s defaults =
     (if Color_IsZero K (FontColor s)
      then (if length defaults > 0 then defaults ! 0 else ColorTransparent K)
      else FontColor s)"

definition GetFont :: "('c, 'f) pkg \<Rightarrow> ('c, 'f) Style \<Rightarrow> 'f option list \<Rightarrow> 'f option" where
  "GetFont K s defaults =
     (if Font s = None
      then (if length defaults > 0 then defaults ! 0 else None)
      else Font s)"

definition GetPadding :: "('c, 'f) pkg \<Rightarrow> ('c, 'f) Style \<Rightarrow> Box list \<Rightarrow> Box" where
  "GetPadding K s defaults =
     (if Box_IsZero K (Padding s)
      then (if length defaults > 0 then defaults ! 0
            else \<lparr>Top = 0, Left = 0, Right = 0, Bottom = 0\<rparr>)
      else Padding s)"

definition GetTextHorizontalAlign ::
  "('c, 'f) pkg \<Rightarrow> ('c, 'f) Style \<Rightarrow> textHorizontalAlign list \<Rightarrow> textHorizontalAlign" where
  "GetTextHorizontalAlign K s defaults =
     (if TextHorizontalAlign s = TextHorizontalAlignUnset
      then (if length defaults > 0 then defaults ! 0 else TextHorizontalAlignLeft)
      else TextHorizontalAlign s)"

definition GetTextVerticalAlign ::
  "('c, 'f) pkg \<Rightarrow> ('c, 'f) Style \<Rightarrow> textVerticalAlign list \<Rightarrow> textVerticalAlign" where
  "GetTextVerticalAlign K s defaults =
     (if TextVerticalAlign s = TextVerticalAlignUnset
      then (if length defaults > 0 then defaults ! 0 else TextVerticalAlignBaseline)
      else TextVerticalAlign s)"

definition GetTextWrap :: "('c, 'f) pkg \<Rightarrow> ('c, 'f) Style \<Rightarrow> textWrap list \<Rightarrow> textWrap" where
  "GetTextWrap K s defaults =
     (if TextWrap s = TextWrapUnset
      then (if length defaults > 0 then defaults ! 0 else TextWrapWord)
      else TextWrap s)"

text \<open>
  \<^verbatim>\<open>InheritFrom\<close> fills the named result \<^verbatim>\<open>final\<close>, which starts as the zero value of
  \<^verbatim>\<open>Style\<close>; it assigns every field but \<^verbatim>\<open>Show\<close>, which therefore stays \<^verbatim>\<open>false\<close>.
\<close>

definition InheritFrom :: "('c, 'f) pkg \<Rightarrow> ('c, 'f) Style \<Rightarrow> ('c, 'f) Style \<Rightarrow> ('c, 'f) Style" where
  "InheritFrom K s defaults =
     \<lparr>Show = False,
      Padding = GetPadding K s [Padding defaults],
      StrokeWidth = GetStrokeWidth K s [StrokeWidth defaults],
      StrokeColor = GetStrokeColor K s [StrokeColor defaults],
      StrokeDashArray = GetStrokeDashArray K s [StrokeDashArray defaults],
      FillColor = GetFillColor K s [FillColor defaults],
      FontSize = GetFontSize K s [FontSize defaults],
      FontColor = GetFontColor K s [FontColor defaults],
      Font = GetFont K s [Font defaults],
      TextHorizontalAlign = GetTextHorizontalAlign K s [TextHorizontalAlign defaults],
      TextVerticalAlign = GetTextVerticalAlign K s [TextVerticalAlign defaults],
      TextWrap = GetTextWrap K s [TextWrap defaults]\<rparr>"

text \<open>
  \<^verbatim>\<open>String\<close>. \<open>String_fields\<close> is the slice \<^verbatim>\<open>output\<close> once the nine blocks of the
  function have run; each block appends exactly one element. The verbs \<^verbatim>\<open>%0.2f\<close> and
  \<^verbatim>\<open>%.2f\<close> format alike (the flag \<^verbatim>\<open>0\<close> pads to a width, and none is given), so one
  formatter \<open>Sprintf_2f\<close> stands for both.
\<close>

fun Join :: "string list \<Rightarrow> string \<Rightarrow> string" where
  "Join [] sep = []"
| "Join [x] sep = x"
| "Join (x # y # ys) sep = x @ sep @ Join (y # ys) sep"

definition elems :: "'a list option \<Rightarrow> 'a list" where
  "elems xs = (case xs of None \<Rightarrow> [] | Some l \<Rightarrow> l)"

definition String_fields :: "('c, 'f) pkg \<Rightarrow> ('c, 'f) Style \<Rightarrow> string list" where
  \<open>String_fields K s =
     [if Show s then ''"show": true'' else ''"show": false'',
      if \<not> Box_IsZero K (Padding s) then ''"padding": '' @ Box_String K (Padding s)
      else ''"padding": null'',
      if StrokeWidth s \<ge> 0 then ''"stroke_width": '' @ Sprintf_2f K (StrokeWidth s)
      else ''"stroke_width": null'',
      if \<not> Color_IsZero K (StrokeColor s)
      then ''"stroke_color": '' @ Color_String K (StrokeColor s)
      else ''"stroke_color": null'',
      if len (StrokeDashArray s) > 0
      then ''"stroke_dash_array": ['' @
           Join (map (Sprintf_2f K) (elems (StrokeDashArray s))) '', '' @ '']''
      else ''"stroke_dash_array": null'',
      if \<not> Color_IsZero K (FillColor s) then ''"fill_color": '' @ Color_String K (FillColor s)
      else ''"fill_color": null'',
      if FontSize s \<noteq> 0 then ''"font_size": "'' @ Sprintf_2f K (FontSize s) @ ''pt"''
      else ''"font_size": null'',
      if \<not> Color_IsZero K (FontColor s) then ''"font_color": '' @ Color_String K (FontColor s)
      else ''"font_color": null'',
      case Font s of
        Some f \<Rightarrow> ''"font": "'' @ Font_Name K f @ ''"''
      | None \<Rightarrow> ''"font_color": null'']\<close>

definition Style_String :: "('c, 'f) pkg \<Rightarrow> ('c, 'f) Style \<Rightarrow> string" where
  "Style_String K s =
     (if IsZero K s then ''{}'' else ''{'' @ Join (String_fields K s) '', '' @ ''}'')"

section \<open>The renderer\<close>

text \<open>
  \<^verbatim>\<open>Renderer\<close> is an interface: a value of it is a method table \<open>R\<close> together with
  the state \<open>r\<close> of the object behind it. A setter returns the new state; \<^verbatim>\<open>MeasureText\<close>
  returns the box and the state it leaves. The functions below take \<open>R\<close> and \<open>r\<close> and
  return the final state next to their result.
\<close>

record ('c, 'f, 'r) Renderer =
  SetStrokeColor :: "'c \<Rightarrow> 'r \<Rightarrow> 'r"
  SetStrokeWidth :: "real \<Rightarrow> 'r \<Rightarrow> 'r"
  SetStrokeDashArray :: "real list option \<Rightarrow> 'r \<Rightarrow> 'r"
  SetFillColor :: "'c \<Rightarrow> 'r \<Rightarrow> 'r"
  SetFont :: "'f option \<Rightarrow> 'r \<Rightarrow> 'r"
  SetFontColor :: "'c \<Rightarrow> 'r \<Rightarrow> 'r"
  SetFontSize :: "real \<Rightarrow> 'r \<Rightarrow> 'r"
  MeasureText :: "string \<Rightarrow> 'r \<Rightarrow> Box \<times> 'r"

definition WriteToRenderer ::
  "('c, 'f) pkg \<Rightarrow> ('c, 'f, 'r) Renderer \<Rightarrow> ('c, 'f) Style \<Rightarrow> 'r \<Rightarrow> 'r" where
  "WriteToRenderer K R s r =
     (let r1 = SetStrokeColor R (GetStrokeColor K s []) r;
          r2 = SetStrokeWidth R (GetStrokeWidth K s []) r1;
          r3 = SetStrokeDashArray R (GetStrokeDashArray K s []) r2;
          r4 = SetFillColor R (GetFillColor K s []) r3;
          r5 = SetFont R (GetFont K s []) r4;
          r6 = SetFontColor R (GetFontColor K s []) r5
      in SetFontSize R (GetFontSize K s []) r6)"

text \<open>
  The calls a renderer receives, and a renderer that keeps the list of them next to the
  state of the renderer it wraps: what a recording test double of the interface is.
\<close>

datatype ('c, 'f) call =
  CallSetStrokeColor 'c
| CallSetStrokeWidth real
| CallSetStrokeDashArray "real list option"
| CallSetFillColor 'c
| CallSetFont "'f option"
| CallSetFontColor 'c
| CallSetFontSize real
| CallMeasureText string

definition recording ::
  "('c, 'f, 'r) Renderer \<Rightarrow> ('c, 'f, 'r \<times> ('c, 'f) call list) Renderer" where
  "recording R =
     \<lparr>SetStrokeColor = (\<lambda>v q. (SetStrokeColor R v (fst q), snd q @ [CallSetStrokeColor v])),
      SetStrokeWidth = (\<lambda>v q. (SetStrokeWidth R v (fst q), snd q @ [CallSetStrokeWidth v])),
      SetStrokeDashArray =
        (\<lambda>v q. (SetStrokeDashArray R v (fst q), snd q @ [CallSetStrokeDashArray v])),
      SetFillColor = (\<lambda>v q. (SetFillColor R v (fst q), snd q @ [CallSetFillColor v])),
      SetFont = (\<lambda>v q. (SetFont R v (fst q), snd q @ [CallSetFont v])),
      SetFontColor = (\<lambda>v q. (SetFontColor R v (fst q), snd q @ [CallSetFontColor v])),
      SetFontSize = (\<lambda>v q. (SetFontSize R v (fst q), snd q @ [CallSetFontSize v])),
      MeasureText =
        (\<lambda>t q. (fst (MeasureText R t (fst q)),
                (snd (MeasureText R t (fst q)), snd q @ [CallMeasureText t])))\<rparr>"

section \<open>Text wrapping\<close>

definition cutset :: string where
  "cutset = [CHR '' '', CHR 0x09, CHR 0x0A, CHR 0x0D]"

definition Trim :: "string \<Rightarrow> string" where
  "Trim value =
     rev (dropWhile (\<lambda>c. c \<in> set cutset) (rev (dropWhile (\<lambda>c. c \<in> set cutset) value)))"

text \<open>
  The loop of \<^verbatim>\<open>WrapFitWord\<close> over the code points still to read, with the variables
  \<^verbatim>\<open>output\<close>, \<^verbatim>\<open>line\<close> and \<^verbatim>\<open>word\<close> and the renderer's state.
\<close>

fun WrapFitWord_loop ::
  "('c, 'f) pkg \<Rightarrow> ('c, 'f, 'r) Renderer \<Rightarrow> int \<Rightarrow> string \<Rightarrow> string list \<Rightarrow> string \<Rightarrow> string \<Rightarrow> 'r
     \<Rightarrow> (string list \<times> string \<times> string) \<times> 'r" where
  "WrapFitWord_loop K R width [] output line word r = ((output, line, word), r)"
| "WrapFitWord_loop K R width (c # cs) output line word r =
     (if c = CHR 0x0A
      then WrapFitWord_loop K R width cs (output @ [Trim (line @ word)]) [] [] r
      else
        (let textBox = fst (MeasureText R (line @ word @ [c]) r);
             r' = snd (MeasureText R (line @ word @ [c]) r)
         in if Box_Width K textBox \<ge> width
            then WrapFitWord_loop K R width cs (output @ [Trim line]) word [c] r'
            else if c = CHR '' '' \<or> c = CHR 0x09
            then WrapFitWord_loop K R width cs output (line @ word @ [c]) [] r'
            else WrapFitWord_loop K R width cs output line (word @ [c]) r'))"

definition WrapFitWord ::
  "('c, 'f) pkg \<Rightarrow> ('c, 'f, 'r) Renderer \<Rightarrow> 'r \<Rightarrow> string \<Rightarrow> int \<Rightarrow> ('c, 'f) Style
     \<Rightarrow> string list \<times> 'r" where
  "WrapFitWord K R r value width style =
     (case WrapFitWord_loop K R width value [] [] [] (WriteToRenderer K R style r) of
        ((output, line, word), r') \<Rightarrow> (output @ [Trim (line @ word)], r'))"

fun WrapFitRune_loop ::
  "('c, 'f) pkg \<Rightarrow> ('c, 'f, 'r) Renderer \<Rightarrow> int \<Rightarrow> string \<Rightarrow> string list \<Rightarrow> string \<Rightarrow> 'r
     \<Rightarrow> (string list \<times> string) \<times> 'r" where
  "WrapFitRune_loop K R width [] output line r = ((output, line), r)"
| "WrapFitRune_loop K R width (c # cs) output line r =
     (if c = CHR 0x0A
      then WrapFitRune_loop K R width cs (output @ [line]) [] r
      else
        (let textBox = fst (MeasureText R (line @ [c]) r);
             r' = snd (MeasureText R (line @ [c]) r)
         in if Box_Width K textBox \<ge> width
            then WrapFitRune_loop K R width cs (output @ [line]) [c] r'
            else WrapFitRune_loop K R width cs output (line @ [c]) r'))"

text \<open>
  \<^verbatim>\<open>appendLast\<close> writes into the last element of the slice it is given; the slice has
  at least one element on that path, so the index \<^verbatim>\<open>len(lines)-1\<close> is in range.
\<close>

definition appendLast :: "string list \<Rightarrow> string \<Rightarrow> string list" where
  "appendLast lines text =
     (if length lines = 0 then [text]
      else lines[length lines - 1 := (lines ! (length lines - 1)) @ text])"

definition WrapFitRune ::
  "('c, 'f) pkg \<Rightarrow> ('c, 'f, 'r) Renderer \<Rightarrow> 'r \<Rightarrow> string \<Rightarrow> int \<Rightarrow> ('c, 'f) Style
     \<Rightarrow> string list \<times> 'r" where
  "WrapFitRune K R r value width style =
     (case WrapFitRune_loop K R width value [] [] (WriteToRenderer K R style r) of
        ((output, line), r') \<Rightarrow> (appendLast output line, r'))"

definition WrapFit ::
  "('c, 'f) pkg \<Rightarrow> ('c, 'f, 'r) Renderer \<Rightarrow> 'r \<Rightarrow> string \<Rightarrow> int \<Rightarrow> ('c, 'f) Style \<Rightarrow> textWrap
     \<Rightarrow> string list \<times> 'r" where
  "WrapFit K R r value width style wrapOption =
     (let valueBox = fst (MeasureText R value r);
          r1 = snd (MeasureText R value r)
      in if Box_Width K valueBox > width
         then (if wrapOption = TextWrapRune then WrapFitRune K R r1 value width style
               else if wrapOption = TextWrapWord then WrapFitWord K R r1 value width style
               else ([value], r1))
         else ([value], r1))"

section \<open>Annotation series\<close>

text \<open>
  Of \<^verbatim>\<open>Value2\<close> the fields that the series reads. A \<^verbatim>\<open>Range\<close> is \<open>'g\<close>; its method
  \<^verbatim>\<open>Translate\<close>, the drawing helpers \<^verbatim>\<open>Draw.MeasureAnnotation\<close> and
  \<^verbatim>\<open>Draw.Annotation\<close> and the helpers \<^verbatim>\<open>MinInt\<close> and \<^verbatim>\<open>MaxInt\<close> are declared outside
  the embedded files and are the fields of the parameter \<open>D\<close>. The two drawing helpers
  receive the renderer and may change its state.
\<close>

record ('c, 'f) Value2 =
  XValue :: real
  YValue :: real
  Label :: string
  Style :: "('c, 'f) Style"

record ('c, 'f) AnnotationSeries =
  Name :: string
  Style :: "('c, 'f) Style"
  YAxis :: int
  Annotations :: "('c, 'f) Value2 list"

record ('c, 'f, 'r, 'g) draw =
  Translate :: "'g \<Rightarrow> real \<Rightarrow> int"
  MeasureAnnotation :: "'r \<Rightarrow> Box \<Rightarrow> ('c, 'f) Style \<Rightarrow> int \<Rightarrow> int \<Rightarrow> string \<Rightarrow> Box \<times> 'r"
  Annotation :: "'r \<Rightarrow> Box \<Rightarrow> ('c, 'f) Style \<Rightarrow> int \<Rightarrow> int \<Rightarrow> string \<Rightarrow> 'r"
  MinInt :: "int \<Rightarrow> int \<Rightarrow> int"
  MaxInt :: "int \<Rightarrow> int \<Rightarrow> int"

definition wrap_int :: "int \<Rightarrow> int" where
  "wrap_int x = (x + 2 ^ 63) mod 2 ^ 64 - 2 ^ 63"

definition annotationStyleDefaults ::
  "('c, 'f) pkg \<Rightarrow> ('c, 'f) AnnotationSeries \<Rightarrow> ('c, 'f) Style \<Rightarrow> ('c, 'f) Style" where
  "annotationStyleDefaults K ser defaults =
     \<lparr>Show = False,
      Padding = DefaultAnnotationPadding K,
      StrokeWidth = StrokeWidth defaults,
      StrokeColor = StrokeColor defaults,
      StrokeDashArray = None,
      FillColor = DefaultAnnotationFillColor K,
      FontSize = DefaultAnnotationFontSize K,
      FontColor = Color_zero K,
      Font = Font defaults,
      TextHorizontalAlign = 0,
      TextVerticalAlign = 0,
      TextWrap = 0\<rparr>"

fun Measure_loop ::
  "('c, 'f) pkg \<Rightarrow> ('c, 'f, 'r, 'g) draw \<Rightarrow> Box \<Rightarrow> 'g \<Rightarrow> 'g \<Rightarrow> ('c, 'f) Style
     \<Rightarrow> ('c, 'f) Value2 list \<Rightarrow> Box \<Rightarrow> 'r \<Rightarrow> Box \<times> 'r" where
  "Measure_loop K D canvasBox xrange yrange seriesStyle [] box r = (box, r)"
| "Measure_loop K D canvasBox xrange yrange seriesStyle (a # rest) box r =
     (let style = InheritFrom K (Value2.Style a) seriesStyle;
          lx = wrap_int (Left canvasBox + Translate D xrange (XValue a));
          ly = wrap_int (Bottom canvasBox - Translate D yrange (YValue a));
          ab = fst (MeasureAnnotation D r canvasBox style lx ly (Label a));
          r' = snd (MeasureAnnotation D r canvasBox style lx ly (Label a))
      in Measure_loop K D canvasBox xrange yrange seriesStyle rest
           (box\<lparr>Top := MinInt D (Top box) (Top ab),
                Left := MinInt D (Left box) (Left ab),
                Right := MaxInt D (Right box) (Right ab),
                Bottom := MaxInt D (Bottom box) (Bottom ab)\<rparr>) r')"

definition MaxInt32 :: int where
  "MaxInt32 = 2147483647"

definition Measure ::
  "('c, 'f) pkg \<Rightarrow> ('c, 'f, 'r, 'g) draw \<Rightarrow> ('c, 'f) AnnotationSeries \<Rightarrow> 'r \<Rightarrow> Box \<Rightarrow> 'g \<Rightarrow> 'g
     \<Rightarrow> ('c, 'f) Style \<Rightarrow> Box \<times> 'r" where
  "Measure K D ser r canvasBox xrange yrange defaults =
     (let box = \<lparr>Top = MaxInt32, Left = MaxInt32, Right = 0, Bottom = 0\<rparr>
      in if IsZero K (AnnotationSeries.Style ser) \<or> Show (AnnotationSeries.Style ser)
         then Measure_loop K D canvasBox xrange yrange
                (InheritFrom K (AnnotationSeries.Style ser)
                   (annotationStyleDefaults K ser defaults))
                (Annotations ser) box r
         else (box, r))"

fun Render_loop ::
  "('c, 'f) pkg \<Rightarrow> ('c, 'f, 'r, 'g) draw \<Rightarrow> Box \<Rightarrow> 'g \<Rightarrow> 'g \<Rightarrow> ('c, 'f) Style
     \<Rightarrow> ('c, 'f) Value2 list \<Rightarrow> 'r \<Rightarrow> 'r" where
  "Render_loop K D canvasBox xrange yrange seriesStyle [] r = r"
| "Render_loop K D canvasBox xrange yrange seriesStyle (a # rest) r =
     (let style = InheritFrom K (Value2.Style a) seriesStyle;
          lx = wrap_int (Left canvasBox + Translate D xrange (XValue a));
          ly = wrap_int (Bottom canvasBox - Translate D yrange (YValue a))
      in Render_loop K D canvasBox xrange yrange seriesStyle rest
           (Annotation D r canvasBox style lx ly (Label a)))"

definition Render ::
  "('c, 'f) pkg \<Rightarrow> ('c, 'f, 'r, 'g) draw \<Rightarrow> ('c, 'f) AnnotationSeries \<Rightarrow> 'r \<Rightarrow> Box \<Rightarrow> 'g \<Rightarrow> 'g
     \<Rightarrow> ('c, 'f) Style \<Rightarrow> 'r" where
  "Render K D ser r canvasBox xrange yrange defaults =
     (if IsZero K (AnnotationSeries.Style ser) \<or> Show (AnnotationSeries.Style ser)
      then Render_loop K D canvasBox xrange yrange
             (InheritFrom K (AnnotationSeries.Style ser)
                (annotationStyleDefaults K ser defaults))
             (Annotations ser) r
      else r)"

text \<open>
  The calls the two drawing helpers receive, with their arguments (the canvas box, the
  style, the position and the label), and helpers that keep the list of them next to the
  state of the renderer, as the recording renderer does for the interface.
\<close>

datatype ('c, 'f) draw_call =
  CallMeasureAnnotation Box "('c, 'f) Style" int int string
| CallAnnotation Box "('c, 'f) Style" int int string

definition recording_draw ::
  "('c, 'f, 'r, 'g) draw \<Rightarrow> ('c, 'f, 'r \<times> ('c, 'f) draw_call list, 'g) draw" where
  "recording_draw D =
     \<lparr>Translate = Translate D,
      MeasureAnnotation =
        (\<lambda>q cb st lx ly lbl.
           (fst (MeasureAnnotation D (fst q) cb st lx ly lbl),
            (snd (MeasureAnnotation D (fst q) cb st lx ly lbl),
             snd q @ [CallMeasureAnnotation cb st lx ly lbl]))),
      Annotation =
        (\<lambda>q cb st lx ly lbl.
           (Annotation D (fst q) cb st lx ly lbl, snd q @ [CallAnnotation cb st lx ly lbl])),
      MinInt = MinInt D,
      MaxInt = MaxInt D\<rparr>"

section \<open>An instance to run the functions on\<close>

text \<open>
  Concrete parameters for the examples: a colour of four channels whose zero value is
  the unset colour, a font that is its family name, a box whose width is the distance
  of its left and right edges, two decimals for \<^verbatim>\<open>%0.2f\<close>, and a renderer of a
  monospaced font whose state is the font size in pixels: a text of \<open>n\<close> code points
  measures \<open>n\<close> times the font size. The theorems for arbitrary \<open>K\<close>, \<open>R\<close> and \<open>D\<close> do not
  depend on any of these choices.
\<close>

datatype rgba = RGBA nat nat nat nat

definition digit :: "nat \<Rightarrow> char" where
  "digit n = ''0123456789'' ! n"

fun show_nat :: "nat \<Rightarrow> string" where
  "show_nat n = (if n < 10 then [digit n] else show_nat (n div 10) @ [digit (n mod 10)])"

definition example_Sprintf_2f :: "real \<Rightarrow> string" where
  "example_Sprintf_2f x =
     (let n = nat (round (\<bar>x\<bar> * 100))
      in (if x < 0 then ''-'' else []) @ show_nat (n div 100) @ ''.'' @
         [digit (n mod 100 div 10), digit (n mod 10)])"

definition example_Box_String :: "Box \<Rightarrow> string" where
  "example_Box_String b =
     ''box('' @ show_nat (nat (Top b)) @ '','' @ show_nat (nat (Left b)) @ '','' @
       show_nat (nat (Right b)) @ '','' @ show_nat (nat (Bottom b)) @ '')''"

fun example_Color_String :: "rgba \<Rightarrow> string" where
  "example_Color_String (RGBA r g b a) =
     ''rgba('' @ show_nat r @ '','' @ show_nat g @ '','' @ show_nat b @ '','' @ show_nat a @ '')''"

definition example_pkg :: "(rgba, string) pkg" where
  "example_pkg =
     \<lparr>Color_IsZero = (\<lambda>c. c = RGBA 0 0 0 0),
      Color_String = example_Color_String,
      Color_zero = RGBA 0 0 0 0,
      ColorTransparent = RGBA 255 255 255 0,
      Font_Name = (\<lambda>f. f),
      Box_IsZero = (\<lambda>b. Top b = 0 \<and> Left b = 0 \<and> Right b = 0 \<and> Bottom b = 0),
      Box_String = example_Box_String,
      Box_Width = (\<lambda>b. \<bar>Right b - Left b\<bar>),
      Sprintf_2f = example_Sprintf_2f,
      DefaultStrokeWidth = 1,
      DefaultFontSize = 10,
      DefaultAnnotationFillColor = RGBA 255 255 255 255,
      DefaultAnnotationFontSize = 10,
      DefaultAnnotationPadding = \<lparr>Top = 5, Left = 5, Right = 5, Bottom = 5\<rparr>\<rparr>"

definition Style_zero :: "(rgba, string) Style" where
  "Style_zero =
     \<lparr>Show = False,
      Padding = \<lparr>Top = 0, Left = 0, Right = 0, Bottom = 0\<rparr>,
      StrokeWidth = 0,
      StrokeColor = RGBA 0 0 0 0,
      StrokeDashArray = None,
      FillColor = RGBA 0 0 0 0,
      FontSize = 0,
      FontColor = RGBA 0 0 0 0,
      Font = None,
      TextHorizontalAlign = 0,
      TextVerticalAlign = 0,
      TextWrap = 0\<rparr>"

definition monospace :: "(rgba, string, int) Renderer" where
  "monospace =
     \<lparr>SetStrokeColor = (\<lambda>v r. r),
      SetStrokeWidth = (\<lambda>v r. r),
      SetStrokeDashArray = (\<lambda>v r. r),
      SetFillColor = (\<lambda>v r. r),
      SetFont = (\<lambda>v r. r),
      SetFontColor = (\<lambda>v r. r),
      SetFontSize = (\<lambda>v r. \<lfloor>v\<rfloor>),
      MeasureText =
        (\<lambda>t r. (\<lparr>Top = 0, Left = 0, Right = r * int (length t), Bottom = r\<rparr>, r))\<rparr>"

definition example_draw :: "(rgba, string, int, unit) draw" where
  "example_draw =
     \<lparr>Translate = (\<lambda>g x. \<lfloor>x\<rfloor>),
      MeasureAnnotation =
        (\<lambda>r cb st lx ly lbl.
           (\<lparr>Top = ly, Left = lx, Right = lx + r * int (length lbl), Bottom = ly + r\<rparr>, r)),
      Annotation = (\<lambda>r cb st lx ly lbl. r),
      MinInt = min,
      MaxInt = max\<rparr>"

definition canvas :: Box where
  "canvas = \<lparr>Top = 0, Left = 0, Right = 100, Bottom = 100\<rparr>"

definition example_series :: "(rgba, string) AnnotationSeries" where
  "example_series =
     \<lparr>Name = ''notes'',
      Style = Style_zero\<lparr>FontSize := 12\<rparr>,
      YAxis = 0,
      Annotations =
        [\<lparr>XValue = 1, YValue = 2, Label = ''a'', Style = Style_zero\<rparr>,
         \<lparr>XValue = 3, YValue = 4, Label = ''bc'', Style = Style_zero\<rparr>]\<rparr>"

definition example_annotation_style :: "(rgba, string) Style" where
  "example_annotation_style =
     Style_zero\<lparr>Padding := \<lparr>Top = 5, Left = 5, Right = 5, Bottom = 5\<rparr>,
       FillColor := RGBA 255 255 255 255, FontSize := 10\<rparr>"

section \<open>The cascade\<close>

lemmas accessor_defs =
  GetStrokeColor_def GetFillColor_def GetStrokeWidth_def GetStrokeDashArray_def
  GetFontSize_def GetFontColor_def GetFont_def GetPadding_def
  GetTextHorizontalAlign_def GetTextVerticalAlign_def GetTextWrap_def

lemmas example_defs = example_pkg_def Style_zero_def

text \<open>
  Field by field, \<open>InheritFrom\<close> takes the style's own value where it is set and the
  value of the defaults otherwise. The built-in constants are never reached, because every
  accessor is called with one explicit default.
\<close>

lemma InheritFrom_fields:
  "Show (InheritFrom K s d) = False"
  "Padding (InheritFrom K s d) = (if Box_IsZero K (Padding s) then Padding d else Padding s)"
  "StrokeWidth (InheritFrom K s d) = (if StrokeWidth s = 0 then StrokeWidth d else StrokeWidth s)"
  "StrokeColor (InheritFrom K s d) =
     (if Color_IsZero K (StrokeColor s) then StrokeColor d else StrokeColor s)"
  "StrokeDashArray (InheritFrom K s d) =
     (if len (StrokeDashArray s) = 0 then StrokeDashArray d else StrokeDashArray s)"
  "FillColor (InheritFrom K s d) =
     (if Color_IsZero K (FillColor s) then FillColor d else FillColor s)"
  "FontSize (InheritFrom K s d) = (if FontSize s = 0 then FontSize d else FontSize s)"
  "FontColor (InheritFrom K s d) =
     (if Color_IsZero K (FontColor s) then FontColor d else FontColor s)"
  "Font (InheritFrom K s d) = (if Font s = None then Font d else Font s)"
  "TextHorizontalAlign (InheritFrom K s d) =
     (if TextHorizontalAlign s = TextHorizontalAlignUnset then TextHorizontalAlign d
      else TextHorizontalAlign s)"
  "TextVerticalAlign (InheritFrom K s d) =
     (if TextVerticalAlign s = TextVerticalAlignUnset then TextVerticalAlign d
      else TextVerticalAlign s)"
  "TextWrap (InheritFrom K s d) = (if TextWrap s = TextWrapUnset then TextWrap d else TextWrap s)"
  "Style.more (InheritFrom K s d) = ()"
  by (simp_all add: InheritFrom_def accessor_defs)

text \<open>
  Claim C1. For every style \<open>s\<close> and every defaults style \<open>d\<close>, cascading twice with the
  same defaults equals cascading once:
  \<^verbatim>\<open>s.InheritFrom(d).InheritFrom(d) == s.InheritFrom(d)\<close>, all twelve fields compared.
\<close>

theorem InheritFrom_idempotent:
  "InheritFrom K (InheritFrom K s d) d = InheritFrom K s d"
  by (rule Style.equality) (simp_all add: InheritFrom_fields)

theorem InheritFrom_idempotent_witness:
  "InheritFrom example_pkg
     (InheritFrom example_pkg (Style_zero\<lparr>FontSize := 12\<rparr>)
        (Style_zero\<lparr>Show := True, StrokeWidth := 2\<rparr>))
     (Style_zero\<lparr>Show := True, StrokeWidth := 2\<rparr>)
   = Style_zero\<lparr>FontSize := 12, StrokeWidth := 2\<rparr>"
  using InheritFrom_idempotent [of example_pkg "Style_zero\<lparr>FontSize := 12\<rparr>"
      "Style_zero\<lparr>Show := True, StrokeWidth := 2\<rparr>"]
  by (simp add: InheritFrom_def accessor_defs example_defs len_def TextHorizontalAlignUnset_def
      TextVerticalAlignUnset_def TextWrapUnset_def)

text \<open>
  Claim C5. \<^verbatim>\<open>s.IsZero()\<close> is true exactly when the stroke colour, the fill colour and the
  font colour are unset, the stroke width and the font size are \<open>0\<close> and the font pointer
  is nil; and setting \<^verbatim>\<open>Show\<close>, the padding, the dash array, the two alignments and the
  wrap mode to any values leaves \<^verbatim>\<open>IsZero()\<close> as it was.
\<close>

theorem IsZero_iff:
  "(IsZero K s \<longleftrightarrow>
      Color_IsZero K (StrokeColor s) \<and> Color_IsZero K (FillColor s) \<and>
      Color_IsZero K (FontColor s) \<and> StrokeWidth s = 0 \<and> FontSize s = 0 \<and> Font s = None) \<and>
   IsZero K (s\<lparr>Show := b, Padding := p, StrokeDashArray := a, TextHorizontalAlign := h,
               TextVerticalAlign := v, TextWrap := w\<rparr>) = IsZero K s"
  by (auto simp add: IsZero_def)

theorem IsZero_iff_witness:
  "IsZero example_pkg
     (Style_zero\<lparr>Show := True, Padding := \<lparr>Top = 5, Left = 5, Right = 5, Bottom = 5\<rparr>,
        StrokeDashArray := Some [1, 2], TextHorizontalAlign := TextHorizontalAlignRight,
        TextVerticalAlign := TextVerticalAlignTop, TextWrap := TextWrapRune\<rparr>) \<and>
   \<not> IsZero example_pkg (Style_zero\<lparr>FontSize := 12\<rparr>)"
  using IsZero_iff [where K = example_pkg and s = Style_zero and b = True
      and p = "\<lparr>Top = 5, Left = 5, Right = 5, Bottom = 5\<rparr>" and a = "Some [1, 2]"
      and h = TextHorizontalAlignRight and v = TextVerticalAlignTop and w = TextWrapRune]
    IsZero_iff [where K = example_pkg and s = "Style_zero\<lparr>FontSize := 12\<rparr>"]
  by (simp add: example_defs)

text \<open>
  Claim C8. The style that \<^verbatim>\<open>s.InheritFrom(d)\<close> returns always has \<^verbatim>\<open>Show == false\<close>,
  whatever \<^verbatim>\<open>s.Show\<close> and \<^verbatim>\<open>d.Show\<close> are; so the result differs from \<open>s\<close> whenever
  \<^verbatim>\<open>s.Show\<close> is true.
\<close>

theorem InheritFrom_drops_Show:
  "\<not> Show (InheritFrom K s d) \<and> (Show s \<longrightarrow> InheritFrom K s d \<noteq> s)"
proof -
  have off: "\<not> Show (InheritFrom K s d)"
    by (simp add: InheritFrom_fields)
  then show ?thesis
    by metis
qed

theorem InheritFrom_drops_Show_witness:
  "Show (Style_zero\<lparr>Show := True, FontSize := 12\<rparr>) \<and>
   \<not> Show (InheritFrom example_pkg (Style_zero\<lparr>Show := True, FontSize := 12\<rparr>)
            (Style_zero\<lparr>Show := True\<rparr>)) \<and>
   InheritFrom example_pkg (Style_zero\<lparr>Show := True, FontSize := 12\<rparr>) (Style_zero\<lparr>Show := True\<rparr>)
     \<noteq> Style_zero\<lparr>Show := True, FontSize := 12\<rparr>"
  using InheritFrom_drops_Show [of example_pkg "Style_zero\<lparr>Show := True, FontSize := 12\<rparr>"
      "Style_zero\<lparr>Show := True\<rparr>"]
  by simp

text \<open>
  Claim C4 says that for a zero \<open>s\<close> the cascade reproduces the attributes of \<open>d\<close> with the
  own default resolution of \<open>d\<close> applied to the fields that \<open>d\<close> leaves unset. It does not:
  with \<open>s\<close> the zero style and \<open>d\<close> a style that only sets \<^verbatim>\<open>Show\<close> and the font size, the
  horizontal alignment of the result is unset, while \<^verbatim>\<open>d.GetTextHorizontalAlign()\<close> is
  the built-in \<^verbatim>\<open>TextHorizontalAlignLeft\<close>; the stroke width of the result is \<open>0\<close>; and
  \<^verbatim>\<open>Show\<close> of \<open>d\<close> is not reproduced.
\<close>

theorem InheritFrom_zero_counterexample:
  "TextHorizontalAlign
     (InheritFrom example_pkg Style_zero (Style_zero\<lparr>Show := True, FontSize := 12\<rparr>))
     \<noteq> GetTextHorizontalAlign example_pkg (Style_zero\<lparr>Show := True, FontSize := 12\<rparr>) [] \<and>
   StrokeWidth (InheritFrom example_pkg Style_zero (Style_zero\<lparr>Show := True, FontSize := 12\<rparr>))
     = 0 \<and>
   Show (InheritFrom example_pkg Style_zero (Style_zero\<lparr>Show := True, FontSize := 12\<rparr>))
     \<noteq> Show (Style_zero\<lparr>Show := True, FontSize := 12\<rparr>)"
  by (simp add: InheritFrom_fields GetTextHorizontalAlign_def Style_zero_def
      TextHorizontalAlignUnset_def TextHorizontalAlignLeft_def)

text \<open>
  Claim C4, amended. If every field of \<open>s\<close> is unset by the test of its accessor (the zero
  style is such an \<open>s\<close>), then \<^verbatim>\<open>s.InheritFrom(d)\<close> is \<open>d\<close> with \<^verbatim>\<open>Show\<close> set to false: every
  other attribute of \<open>d\<close> is copied as it stands, and a field that \<open>d\<close> leaves unset stays
  unset.
\<close>

theorem InheritFrom_zero:
  assumes "IsZero K s"
    and "Box_IsZero K (Padding s)"
    and "len (StrokeDashArray s) = 0"
    and "TextHorizontalAlign s = TextHorizontalAlignUnset"
    and "TextVerticalAlign s = TextVerticalAlignUnset"
    and "TextWrap s = TextWrapUnset"
  shows "InheritFrom K s d = d\<lparr>Show := False\<rparr>"
  using assms by (intro Style.equality) (simp_all add: InheritFrom_fields IsZero_def)

theorem InheritFrom_zero_witness:
  "IsZero example_pkg Style_zero \<and> Box_IsZero example_pkg (Padding Style_zero) \<and>
   len (StrokeDashArray Style_zero) = 0 \<and>
   TextHorizontalAlign Style_zero = TextHorizontalAlignUnset \<and>
   TextVerticalAlign Style_zero = TextVerticalAlignUnset \<and>
   TextWrap Style_zero = TextWrapUnset \<and>
   InheritFrom example_pkg Style_zero (Style_zero\<lparr>Show := True, FontSize := 12\<rparr>)
     = Style_zero\<lparr>FontSize := 12\<rparr>"
proof -
  have h: "IsZero example_pkg Style_zero" "Box_IsZero example_pkg (Padding Style_zero)"
    "len (StrokeDashArray Style_zero) = 0"
    "TextHorizontalAlign Style_zero = TextHorizontalAlignUnset"
    "TextVerticalAlign Style_zero = TextVerticalAlignUnset"
    "TextWrap Style_zero = TextWrapUnset"
    by (simp_all add: IsZero_def example_defs len_def TextHorizontalAlignUnset_def
        TextVerticalAlignUnset_def TextWrapUnset_def)
  from InheritFrom_zero [OF h, of "Style_zero\<lparr>Show := True, FontSize := 12\<rparr>"] h
  show ?thesis
    by (simp add: Style_zero_def)
qed

section \<open>The diagnostic string\<close>

lemma Sprintf_examples:
  "example_Sprintf_2f 0 = ''0.00''" "example_Sprintf_2f 12 = ''12.00''"
  by (simp_all add: example_Sprintf_2f_def digit_def)

text \<open>
  Claim C7 says that \<^verbatim>\<open>String()\<close> of a non-zero style emits the fields show, padding,
  stroke_width, stroke_color, stroke_dash_array, fill_color, font_size, font_color and font,
  with \<^verbatim>\<open>null\<close> for each unset attribute, in particular for a stroke width of zero. The
  code tests \<^verbatim>\<open>s.StrokeWidth >= 0\<close> where the font size next to it tests \<^verbatim>\<open>!= 0\<close>, and
  the \<^verbatim>\<open>else\<close> branch of the font repeats the label of the font colour. For the style
  \<^verbatim>\<open>Style{FontSize: 12}\<close> the function returns the string below: the stroke width is
  printed as \<^verbatim>\<open>0.00\<close>, and the ninth field is labelled \<^verbatim>\<open>font_color\<close>.
\<close>

theorem Style_String_zero_stroke_width:
  \<open>Style_String example_pkg (Style_zero\<lparr>FontSize := 12\<rparr>) =
     ''{"show": false, "padding": null, "stroke_width": 0.00, "stroke_color": null, "stroke_dash_array": null, "fill_color": null, "font_size": "12.00pt", "font_color": null, "font_color": null}''\<close>
  by (simp add: Style_String_def IsZero_def String_fields_def example_defs len_def
      Sprintf_examples)

text \<open>
  The same for every instance of the parameters: whatever the formatter and the colours
  are, a stroke width of zero is formatted as a number and an absent font is reported
  under the label of the font colour.
\<close>

lemma String_fields_stroke_width_zero:
  \<open>StrokeWidth s = 0 \<Longrightarrow> String_fields K s ! 2 = ''"stroke_width": '' @ Sprintf_2f K 0\<close>
  by (simp add: String_fields_def)

lemma String_fields_font_absent:
  \<open>Font s = None \<Longrightarrow> String_fields K s ! 8 = ''"font_color": null''\<close>
  by (simp add: String_fields_def)

section \<open>Wrapping\<close>

lemma recording_MeasureText:
  "MeasureText (recording R) t q =
     (fst (MeasureText R t (fst q)), (snd (MeasureText R t (fst q)), snd q @ [CallMeasureText t]))"
  by (simp add: recording_def)

lemma monospace_simps:
  "MeasureText monospace t r = (\<lparr>Top = 0, Left = 0, Right = r * int (length t), Bottom = r\<rparr>, r)"
  "SetStrokeColor monospace c r = r"
  "SetStrokeWidth monospace x r = r"
  "SetStrokeDashArray monospace a r = r"
  "SetFillColor monospace c r = r"
  "SetFont monospace f r = r"
  "SetFontColor monospace c r = r"
  "SetFontSize monospace x r = \<lfloor>x\<rfloor>"
  by (simp_all add: monospace_def)

lemma example_Box_Width: "Box_Width example_pkg b = \<bar>Right b - Left b\<bar>"
  by (simp add: example_pkg_def)

lemma WriteToRenderer_monospace:
  "WriteToRenderer example_pkg monospace (Style_zero\<lparr>FontSize := 10\<rparr>) r = 10"
  "WriteToRenderer example_pkg monospace (Style_zero\<lparr>FontSize := 20\<rparr>) r = 20"
  by (simp_all add: WriteToRenderer_def monospace_simps GetFontSize_def Style_zero_def)

text \<open>
  Writing a style to a recording renderer adds the seven setter calls, in the order of
  \<^verbatim>\<open>WriteToRenderer\<close>.
\<close>

lemma WriteToRenderer_recording:
  "WriteToRenderer K (recording R) style (r, calls) =
     (WriteToRenderer K R style r,
      calls @ [CallSetStrokeColor (GetStrokeColor K style []),
               CallSetStrokeWidth (GetStrokeWidth K style []),
               CallSetStrokeDashArray (GetStrokeDashArray K style []),
               CallSetFillColor (GetFillColor K style []),
               CallSetFont (GetFont K style []),
               CallSetFontColor (GetFontColor K style []),
               CallSetFontSize (GetFontSize K style [])])"
  by (simp add: WriteToRenderer_def recording_def Let_def)

text \<open>
  Claim C6. If the measured width of the unwrapped text does not exceed \<^verbatim>\<open>width\<close>,
  \<^verbatim>\<open>WrapFit\<close> returns the one-element slice holding the text unchanged; and for every
  wrap option other than \<^verbatim>\<open>TextWrapRune\<close> and \<^verbatim>\<open>TextWrapWord\<close> (unset, none, or an
  integer that is no declared constant) it returns that slice whatever the width is.
\<close>

theorem WrapFit_unwrapped:
  "Box_Width K (fst (MeasureText R value r)) \<le> width \<or>
     (wrapOption \<noteq> TextWrapRune \<and> wrapOption \<noteq> TextWrapWord)
   \<Longrightarrow> fst (WrapFit K R r value width style wrapOption) = [value]"
  by (auto simp add: WrapFit_def Let_def)

theorem WrapFit_unwrapped_witness:
  "Box_Width example_pkg (fst (MeasureText monospace ''abcd'' 5)) \<le> 30 \<and>
   fst (WrapFit example_pkg monospace 5 ''abcd'' 30 (Style_zero\<lparr>FontSize := 20\<rparr>) TextWrapWord)
     = [''abcd''] \<and>
   (7 \<noteq> TextWrapRune \<and> 7 \<noteq> TextWrapWord) \<and>
   30 < Box_Width example_pkg (fst (MeasureText monospace ''abcdefgh'' 5)) \<and>
   fst (WrapFit example_pkg monospace 5 ''abcdefgh'' 30 (Style_zero\<lparr>FontSize := 20\<rparr>) 7)
     = [''abcdefgh'']"
proof -
  have fits: "Box_Width example_pkg (fst (MeasureText monospace ''abcd'' 5)) \<le> 30"
    and wide: "30 < Box_Width example_pkg (fst (MeasureText monospace ''abcdefgh'' 5))"
    by (simp_all add: monospace_simps example_Box_Width)
  have other: "7 \<noteq> TextWrapRune \<and> 7 \<noteq> TextWrapWord"
    by (simp add: TextWrapRune_def TextWrapWord_def)
  from fits wide other
    WrapFit_unwrapped [of example_pkg monospace "''abcd''" 5 30 TextWrapWord
      "Style_zero\<lparr>FontSize := 20\<rparr>"]
    WrapFit_unwrapped [of example_pkg monospace "''abcdefgh''" 5 30 7
      "Style_zero\<lparr>FontSize := 20\<rparr>"]
  show ?thesis
    by blast
qed

text \<open>
  Claim C9. On those two paths \<^verbatim>\<open>WrapFit\<close> calls the renderer exactly once, with
  \<^verbatim>\<open>MeasureText(value)\<close>, and calls no setter: a recording renderer ends with that one
  call added to its list, and the wrapped renderer is in the state in which the
  measurement left it. The measurement is taken in the state \<open>r\<close> that the renderer had
  on entry, whatever \<^verbatim>\<open>style\<close> is; the style is written to the renderer only inside
  \<^verbatim>\<open>WrapFitWord\<close> and \<^verbatim>\<open>WrapFitRune\<close>.
\<close>

theorem WrapFit_one_measurement:
  "Box_Width K (fst (MeasureText R value r)) \<le> width \<or>
     (wrapOption \<noteq> TextWrapRune \<and> wrapOption \<noteq> TextWrapWord)
   \<Longrightarrow> WrapFit K (recording R) (r, calls) value width style wrapOption =
         ([value], (snd (MeasureText R value r), calls @ [CallMeasureText value]))"
  by (auto simp add: WrapFit_def Let_def recording_MeasureText)

theorem WrapFit_one_measurement_witness:
  "Box_Width example_pkg (fst (MeasureText monospace ''abcd'' 5)) \<le> 30 \<and>
   30 < Box_Width example_pkg (fst (MeasureText monospace ''abcd''
          (WriteToRenderer example_pkg monospace (Style_zero\<lparr>FontSize := 20\<rparr>) 5))) \<and>
   WrapFit example_pkg (recording monospace) (5, []) ''abcd'' 30 (Style_zero\<lparr>FontSize := 20\<rparr>)
     TextWrapWord = ([''abcd''], (5, [CallMeasureText ''abcd'']))"
proof -
  have fits: "Box_Width example_pkg (fst (MeasureText monospace ''abcd'' 5)) \<le> 30"
    by (simp add: monospace_simps example_Box_Width)
  have styled: "30 < Box_Width example_pkg (fst (MeasureText monospace ''abcd''
          (WriteToRenderer example_pkg monospace (Style_zero\<lparr>FontSize := 20\<rparr>) 5)))"
    by (simp add: WriteToRenderer_monospace monospace_simps example_Box_Width)
  from fits styled
    WrapFit_one_measurement [of example_pkg monospace "''abcd''" 5 30 TextWrapWord "[]"
      "Style_zero\<lparr>FontSize := 20\<rparr>"]
  show ?thesis
    by (simp add: monospace_simps)
qed

subsection \<open>The tail of the rune mode\<close>

lemma appendLast_eq:
  "appendLast out line = (if out = [] then [line] else butlast out @ [last out @ line])"
  by (cases out rule: rev_cases) (simp_all add: appendLast_def nth_append)

lemma WrapFitRune_loop_keeps_output:
  "out \<noteq> [] \<Longrightarrow> fst (fst (WrapFitRune_loop K R width cs out line r)) \<noteq> []"
  by (induction cs arbitrary: out line r) (simp_all add: Let_def)

text \<open>
  If the loop ends with nothing committed, it has taken the else branch at every code
  point, so the last measurement, of everything read, was below the width.
\<close>

lemma WrapFitRune_loop_no_commit:
  assumes pure: "\<forall>t q. snd (MeasureText R t q) = q"
  shows "CHR 0x0A \<notin> set cs \<Longrightarrow> fst (fst (WrapFitRune_loop K R width cs [] line r)) = []
    \<Longrightarrow> cs \<noteq> [] \<Longrightarrow> Box_Width K (fst (MeasureText R (line @ cs) r)) < width"
proof (induction cs arbitrary: line)
  case Nil
  then show ?case by simp
next
  case (Cons c cs)
  have nl: "c \<noteq> CHR 0x0A" and rest: "CHR 0x0A \<notin> set cs"
    using Cons.prems(1) by auto
  have small: "Box_Width K (fst (MeasureText R (line @ [c]) r)) < width"
  proof (rule ccontr)
    assume "\<not> Box_Width K (fst (MeasureText R (line @ [c]) r)) < width"
    then have "WrapFitRune_loop K R width (c # cs) [] line r =
        WrapFitRune_loop K R width cs [line] [c] r"
      using nl pure by (simp add: Let_def)
    moreover have "fst (fst (WrapFitRune_loop K R width cs [line] [c] r)) \<noteq> []"
      by (rule WrapFitRune_loop_keeps_output) simp
    ultimately show False
      using Cons.prems(2) by simp
  qed
  then have step: "WrapFitRune_loop K R width (c # cs) [] line r =
      WrapFitRune_loop K R width cs [] (line @ [c]) r"
    using nl pure by (simp add: Let_def)
  show ?case
  proof (cases "cs = []")
    case True
    with small show ?thesis by simp
  next
    case False
    from Cons.IH [OF rest _ False, of "line @ [c]"] step Cons.prems(2)
    show ?thesis by simp
  qed
qed

text \<open>
  Claim C3. Let the loop of \<^verbatim>\<open>WrapFitRune\<close> end with the committed lines \<^verbatim>\<open>output\<close> and
  the unfinished remainder \<^verbatim>\<open>line\<close>. The function returns the committed lines with the
  remainder appended to the last of them, and the remainder as the sole line when nothing
  was committed. For a non-empty input without a newline that measures wider than the
  width, under a renderer whose \<^verbatim>\<open>MeasureText\<close> leaves its state as it was, at least one
  line was committed, so the remainder is never a line of its own. With a renderer under
  which three characters stay below the width and four do not, \<^verbatim>\<open>"abcdefg"\<close> gives
  \<^verbatim>\<open>["abc", "defg"]\<close>.
\<close>

theorem WrapFitRune_tail:
  assumes loop: "WrapFitRune_loop K R width value [] [] (WriteToRenderer K R style r)
      = ((output, line), r')"
  shows "fst (WrapFitRune K R r value width style)
      = (if output = [] then [line] else butlast output @ [last output @ line]) \<and>
    ((\<forall>t q. snd (MeasureText R t q) = q) \<and> CHR 0x0A \<notin> set value \<and> value \<noteq> [] \<and>
       width < Box_Width K (fst (MeasureText R value (WriteToRenderer K R style r)))
     \<longrightarrow> output \<noteq> [])"
proof
  show "fst (WrapFitRune K R r value width style)
      = (if output = [] then [line] else butlast output @ [last output @ line])"
    using loop by (simp add: WrapFitRune_def appendLast_eq)
next
  show "(\<forall>t q. snd (MeasureText R t q) = q) \<and> CHR 0x0A \<notin> set value \<and> value \<noteq> [] \<and>
       width < Box_Width K (fst (MeasureText R value (WriteToRenderer K R style r)))
     \<longrightarrow> output \<noteq> []"
  proof (intro impI notI, elim conjE)
    assume pure: "\<forall>t q. snd (MeasureText R t q) = q"
      and nonl: "CHR 0x0A \<notin> set value" and ne: "value \<noteq> []"
      and wide: "width < Box_Width K (fst (MeasureText R value (WriteToRenderer K R style r)))"
      and none: "output = []"
    from none loop have
      "fst (fst (WrapFitRune_loop K R width value [] [] (WriteToRenderer K R style r))) = []"
      by simp
    from WrapFitRune_loop_no_commit [OF pure nonl this ne] wide
    show False by simp
  qed
qed

lemma WrapFitRune_loop_abcdefg:
  "WrapFitRune_loop example_pkg monospace 35 ''abcdefg'' [] [] 10
     = (([''abc'', ''def''], ''g''), 10)"
  by (simp add: monospace_simps example_Box_Width Let_def)

theorem WrapFitRune_tail_witness:
  "WrapFitRune_loop example_pkg monospace 35 ''abcdefg'' [] []
     (WriteToRenderer example_pkg monospace (Style_zero\<lparr>FontSize := 10\<rparr>) 0)
     = (([''abc'', ''def''], ''g''), 10) \<and>
   (\<forall>t q. snd (MeasureText monospace t q) = q) \<and> CHR 0x0A \<notin> set ''abcdefg'' \<and>
   ''abcdefg'' \<noteq> [] \<and>
   35 < Box_Width example_pkg (fst (MeasureText monospace ''abcdefg''
          (WriteToRenderer example_pkg monospace (Style_zero\<lparr>FontSize := 10\<rparr>) 0))) \<and>
   Box_Width example_pkg (fst (MeasureText monospace ''abc'' 10)) < 35 \<and>
   35 \<le> Box_Width example_pkg (fst (MeasureText monospace ''abcd'' 10)) \<and>
   fst (WrapFitRune example_pkg monospace 0 ''abcdefg'' 35 (Style_zero\<lparr>FontSize := 10\<rparr>))
     = [''abc'', ''defg'']"
proof -
  have loop: "WrapFitRune_loop example_pkg monospace 35 ''abcdefg'' [] []
     (WriteToRenderer example_pkg monospace (Style_zero\<lparr>FontSize := 10\<rparr>) 0)
     = (([''abc'', ''def''], ''g''), 10)"
    by (simp only: WriteToRenderer_monospace WrapFitRune_loop_abcdefg)
  have side: "(\<forall>t q. snd (MeasureText monospace t q) = q)" "CHR 0x0A \<notin> set ''abcdefg''"
    "''abcdefg'' \<noteq> []"
    "35 < Box_Width example_pkg (fst (MeasureText monospace ''abcdefg''
          (WriteToRenderer example_pkg monospace (Style_zero\<lparr>FontSize := 10\<rparr>) 0)))"
    "Box_Width example_pkg (fst (MeasureText monospace ''abc'' 10)) < 35"
    "35 \<le> Box_Width example_pkg (fst (MeasureText monospace ''abcd'' 10))"
    by (simp_all add: WriteToRenderer_monospace monospace_simps example_Box_Width)
  from WrapFitRune_tail [OF loop] loop side
  show ?thesis
    by simp
qed

subsection \<open>The word mode on a word wider than the width\<close>

text \<open>
  What the word mode does keep, for every input and renderer: every line it returns is
  the result of \<^verbatim>\<open>Trim\<close>, so it is empty or neither starts nor ends with a space, a
  tab, a newline or a carriage return. And where no single measurement of a word in
  progress reaches the width, words stay whole: \<^verbatim>\<open>"the quick brown fox"\<close> at 10 pixels a
  code point and a width of 105 gives two lines of two words.
\<close>

lemma Trim_trimmed:
  "Trim v = [] \<or> (hd (Trim v) \<notin> set cutset \<and> last (Trim v) \<notin> set cutset)"
proof (cases "Trim v = []")
  case True
  then show ?thesis by simp
next
  case False
  let ?P = "\<lambda>c. c \<in> set cutset"
  let ?w = "dropWhile ?P v"
  let ?u = "dropWhile ?P (rev ?w)"
  have T: "Trim v = rev ?u"
    by (simp add: Trim_def)
  with False have u: "?u \<noteq> []"
    by simp
  have w: "?w \<noteq> []"
  proof
    assume "?w = []"
    then have "?u = []"
      by (simp only: rev.simps dropWhile.simps)
    with u show False
      by simp
  qed
  have "\<not> ?P (hd ?u)"
    using u by (rule hd_dropWhile)
  then have last_ok: "last (Trim v) \<notin> set cutset"
    using u by (simp add: T last_rev)
  have "\<not> ?P (hd ?w)"
    using w by (rule hd_dropWhile)
  moreover have "last ?u = last (rev ?w)"
    using u by (metis append_Nil2 last_appendR takeWhile_dropWhile_id)
  moreover have "last (rev ?w) = hd ?w"
    using w by (simp add: last_rev)
  moreover have "hd (Trim v) = last ?u"
    using u by (simp add: T hd_rev)
  ultimately have "hd (Trim v) \<notin> set cutset"
    by simp
  with last_ok show ?thesis
    by simp
qed

lemma WrapFitWord_loop_trimmed:
  "\<forall>l \<in> set out. \<exists>v. l = Trim v \<Longrightarrow>
   \<forall>l \<in> set (fst (fst (WrapFitWord_loop K R width cs out line word r))). \<exists>v. l = Trim v"
proof (induction cs arbitrary: out line word r)
  case Nil
  then show ?case by simp
next
  case (Cons c cs)
  have a: "\<forall>l \<in> set (out @ [Trim (line @ word)]). \<exists>v. l = Trim v"
    and b: "\<forall>l \<in> set (out @ [Trim line]). \<exists>v. l = Trim v"
    using Cons.prems by auto
  show ?case
    using Cons.IH [OF a] Cons.IH [OF b] Cons.IH [OF Cons.prems]
    by (simp add: Let_def)
qed

lemma WrapFitWord_lines_trimmed:
  assumes "l \<in> set (fst (WrapFitWord K R r value width style))"
  shows "l = [] \<or> (hd l \<notin> set cutset \<and> last l \<notin> set cutset)"
proof -
  obtain out line word r' where
    loop: "WrapFitWord_loop K R width value [] [] [] (WriteToRenderer K R style r)
      = ((out, line, word), r')"
    by (metis prod_cases3 surj_pair)
  have "\<forall>l \<in> set (fst (fst (WrapFitWord_loop K R width value [] [] []
      (WriteToRenderer K R style r)))). \<exists>v. l = Trim v"
    by (rule WrapFitWord_loop_trimmed) simp
  with loop have "\<forall>l \<in> set out. \<exists>v. l = Trim v"
    by simp
  moreover have "l \<in> set out \<or> l = Trim (line @ word)"
    using assms loop by (auto simp add: WrapFitWord_def)
  ultimately obtain v where "l = Trim v"
    by auto
  with Trim_trimmed [of v] show ?thesis
    by simp
qed

lemma Trim_fox:
  "Trim ''the quick '' = ''the quick''" "Trim ''brown fox'' = ''brown fox''"
  by (simp_all add: Trim_def cutset_def)

lemma WrapFitWord_quick_brown_fox:
  "fst (WrapFitWord example_pkg monospace 0 ''the quick brown fox'' 105
          (Style_zero\<lparr>FontSize := 10\<rparr>)) = [''the quick'', ''brown fox'']"
proof -
  have "WrapFitWord_loop example_pkg monospace 105 ''the quick brown fox'' [] [] [] 10
      = (([''the quick''], ''brown '', ''fox''), 10)"
    by (simp add: monospace_simps example_Box_Width Trim_fox Let_def)
  then show ?thesis
    unfolding WrapFitWord_def WriteToRenderer_monospace
    by (simp add: Trim_fox)
qed

lemma Trim_examples:
  "Trim [] = []" "Trim ''a '' = ''a''" "Trim ''ver'' = ''ver''" "Trim ''yl'' = ''yl''"
  "Trim ''ong'' = ''ong''" "Trim ''word '' = ''word''" "Trim ''b'' = ''b''"
  by (simp_all add: Trim_def cutset_def)

lemma WrapFitWord_loop_long_word:
  "WrapFitWord_loop example_pkg monospace 55 ''a verylongword b'' [] [] [] 10
     = (([''a'', ''ver'', ''yl'', ''ong'', ''word''], [], ''b''), 10)"
  by (simp add: monospace_simps example_Box_Width Trim_examples Let_def)

text \<open>
  Claim C2 says that \<^verbatim>\<open>WrapFitWord\<close> never splits inside a word, that joining the output
  lines with single spaces gives back the words of the input, and that a word wider than
  the width overflows its line. With a font of 10 pixels a code point and a width of 55,
  the input \<^verbatim>\<open>"a verylongword b"\<close> is returned as the six lines below: the word
  \<^verbatim>\<open>verylongword\<close> is cut into four pieces. When a measurement reaches the width in the
  middle of a word, the loop moves the pending \<^verbatim>\<open>word\<close> into \<^verbatim>\<open>line\<close>; when the next
  measurement reaches the width before a space was read, it commits that \<^verbatim>\<open>line\<close>, which
  is the first part of the word.
\<close>

theorem WrapFitWord_splits_long_word:
  "fst (WrapFitWord example_pkg monospace 0 ''a verylongword b'' 55 (Style_zero\<lparr>FontSize := 10\<rparr>))
     = [''a'', ''ver'', ''yl'', ''ong'', ''word'', ''b'']"
  unfolding WrapFitWord_def WriteToRenderer_monospace WrapFitWord_loop_long_word
  by (simp add: Trim_examples)

section \<open>Which series are measured and drawn\<close>

lemma recording_draw_simps:
  "Translate (recording_draw D) = Translate D"
  "MinInt (recording_draw D) = MinInt D"
  "MaxInt (recording_draw D) = MaxInt D"
  "MeasureAnnotation (recording_draw D) q cb st lx ly lbl =
     (fst (MeasureAnnotation D (fst q) cb st lx ly lbl),
      (snd (MeasureAnnotation D (fst q) cb st lx ly lbl),
       snd q @ [CallMeasureAnnotation cb st lx ly lbl]))"
  "Annotation (recording_draw D) q cb st lx ly lbl =
     (Annotation D (fst q) cb st lx ly lbl, snd q @ [CallAnnotation cb st lx ly lbl])"
  by (simp_all add: recording_draw_def)

text \<open>
  Recording changes neither the box nor the state of the renderer, and each annotation of
  the list adds one call, with the style cascaded from the series style, the position
  translated into the canvas and the label of that annotation. Each loop is the left fold
  of its body over the annotations.
\<close>

lemma Measure_loop_recording:
  "Measure_loop K (recording_draw D) cb xr yr st vs box (r, calls) =
     (fst (Measure_loop K D cb xr yr st vs box r),
      (snd (Measure_loop K D cb xr yr st vs box r),
       calls @ map (\<lambda>a. CallMeasureAnnotation cb (InheritFrom K (Value2.Style a) st)
                      (wrap_int (Left cb + Translate D xr (XValue a)))
                      (wrap_int (Bottom cb - Translate D yr (YValue a))) (Label a)) vs))"
  by (induction vs arbitrary: box r calls) (simp_all add: recording_draw_simps Let_def)

lemma Render_loop_recording:
  "Render_loop K (recording_draw D) cb xr yr st vs (r, calls) =
     (Render_loop K D cb xr yr st vs r,
      calls @ map (\<lambda>a. CallAnnotation cb (InheritFrom K (Value2.Style a) st)
                     (wrap_int (Left cb + Translate D xr (XValue a)))
                     (wrap_int (Bottom cb - Translate D yr (YValue a))) (Label a)) vs)"
  by (induction vs arbitrary: r calls) (simp_all add: recording_draw_simps Let_def)

lemma Measure_loop_foldl:
  "Measure_loop K D cb xr yr st vs box r =
     foldl (\<lambda>q a.
        let m = MeasureAnnotation D (snd q) cb (InheritFrom K (Value2.Style a) st)
                  (wrap_int (Left cb + Translate D xr (XValue a)))
                  (wrap_int (Bottom cb - Translate D yr (YValue a))) (Label a)
        in ((fst q)\<lparr>Top := MinInt D (Top (fst q)) (Top (fst m)),
                    Left := MinInt D (Left (fst q)) (Left (fst m)),
                    Right := MaxInt D (Right (fst q)) (Right (fst m)),
                    Bottom := MaxInt D (Bottom (fst q)) (Bottom (fst m))\<rparr>, snd m))
       (box, r) vs"
  by (induction vs arbitrary: box r) (simp_all add: Let_def)

lemma Render_loop_foldl:
  "Render_loop K D cb xr yr st vs r =
     foldl (\<lambda>q a. Annotation D q cb (InheritFrom K (Value2.Style a) st)
                     (wrap_int (Left cb + Translate D xr (XValue a)))
                     (wrap_int (Bottom cb - Translate D yr (YValue a))) (Label a)) r vs"
  by (induction vs arbitrary: r) (simp_all add: Let_def)

lemma example_series_style:
  "InheritFrom example_pkg Style_zero
     (annotationStyleDefaults example_pkg ser Style_zero) = example_annotation_style"
  "InheritFrom example_pkg Style_zero example_annotation_style = example_annotation_style"
  by (simp_all add: InheritFrom_def accessor_defs annotationStyleDefaults_def example_defs
      example_annotation_style_def len_def TextHorizontalAlignUnset_def
      TextVerticalAlignUnset_def TextWrapUnset_def)

lemma example_draw_simps:
  "Translate example_draw g x = \<lfloor>x\<rfloor>"
  "MeasureAnnotation example_draw r cb st lx ly lbl =
     (\<lparr>Top = ly, Left = lx, Right = lx + r * int (length lbl), Bottom = ly + r\<rparr>, r)"
  "Annotation example_draw r cb st lx ly lbl = r"
  "MinInt example_draw = min" "MaxInt example_draw = max"
  by (simp_all add: example_draw_def)

lemma wrap_int_examples:
  "wrap_int 1 = 1" "wrap_int 3 = 3" "wrap_int 98 = 98" "wrap_int 96 = 96"
  by (simp_all add: wrap_int_def)

text \<open>
  Claim C10. \<^verbatim>\<open>Measure\<close> and \<^verbatim>\<open>Render\<close> process the annotations of a series exactly when
  \<^verbatim>\<open>as.Style.IsZero() || as.Style.Show\<close>. Then each of them calls its drawing helper once
  for every annotation, in the order of the slice, with the canvas box, the style
  \<^verbatim>\<open>a.Style.InheritFrom(seriesStyle)\<close>, the position \<^verbatim>\<open>canvasBox.Left + xrange.Translate(a.XValue)\<close>
  and \<^verbatim>\<open>canvasBox.Bottom - yrange.Translate(a.YValue)\<close> and the label of that annotation;
  \<^verbatim>\<open>Measure\<close> folds the boxes the helper returns into the box
  \<^verbatim>\<open>{MaxInt32, MaxInt32, 0, 0}\<close> with \<^verbatim>\<open>MinInt\<close> on top and left and \<^verbatim>\<open>MaxInt\<close> on right and
  bottom, and both thread the renderer through the calls. Otherwise, for a style that is
  not zero and has \<^verbatim>\<open>Show == false\<close>, neither calls its helper at all, the renderer is
  left as it was, and \<^verbatim>\<open>Measure\<close> returns the box it started from.
\<close>

theorem AnnotationSeries_gate:
  assumes st: "seriesStyle =
      InheritFrom K (AnnotationSeries.Style ser) (annotationStyleDefaults K ser d)"
  shows
    "Measure K D ser r cb xr yr d =
       (if IsZero K (AnnotationSeries.Style ser) \<or> Show (AnnotationSeries.Style ser)
        then foldl (\<lambda>q a.
               let m = MeasureAnnotation D (snd q) cb (InheritFrom K (Value2.Style a) seriesStyle)
                         (wrap_int (Left cb + Translate D xr (XValue a)))
                         (wrap_int (Bottom cb - Translate D yr (YValue a))) (Label a)
               in ((fst q)\<lparr>Top := MinInt D (Top (fst q)) (Top (fst m)),
                           Left := MinInt D (Left (fst q)) (Left (fst m)),
                           Right := MaxInt D (Right (fst q)) (Right (fst m)),
                           Bottom := MaxInt D (Bottom (fst q)) (Bottom (fst m))\<rparr>, snd m))
             (\<lparr>Top = MaxInt32, Left = MaxInt32, Right = 0, Bottom = 0\<rparr>, r) (Annotations ser)
        else (\<lparr>Top = MaxInt32, Left = MaxInt32, Right = 0, Bottom = 0\<rparr>, r)) \<and>
     Render K D ser r cb xr yr d =
       (if IsZero K (AnnotationSeries.Style ser) \<or> Show (AnnotationSeries.Style ser)
        then foldl (\<lambda>q a. Annotation D q cb (InheritFrom K (Value2.Style a) seriesStyle)
                      (wrap_int (Left cb + Translate D xr (XValue a)))
                      (wrap_int (Bottom cb - Translate D yr (YValue a))) (Label a))
             r (Annotations ser)
        else r) \<and>
     snd (snd (Measure K (recording_draw D) ser (r, []) cb xr yr d)) =
       (if IsZero K (AnnotationSeries.Style ser) \<or> Show (AnnotationSeries.Style ser)
        then map (\<lambda>a. CallMeasureAnnotation cb (InheritFrom K (Value2.Style a) seriesStyle)
                    (wrap_int (Left cb + Translate D xr (XValue a)))
                    (wrap_int (Bottom cb - Translate D yr (YValue a))) (Label a))
               (Annotations ser)
        else []) \<and>
     snd (Render K (recording_draw D) ser (r, []) cb xr yr d) =
       (if IsZero K (AnnotationSeries.Style ser) \<or> Show (AnnotationSeries.Style ser)
        then map (\<lambda>a. CallAnnotation cb (InheritFrom K (Value2.Style a) seriesStyle)
                    (wrap_int (Left cb + Translate D xr (XValue a)))
                    (wrap_int (Bottom cb - Translate D yr (YValue a))) (Label a))
               (Annotations ser)
        else [])"
proof (intro conjI)
  show "Measure K D ser r cb xr yr d =
       (if IsZero K (AnnotationSeries.Style ser) \<or> Show (AnnotationSeries.Style ser)
        then foldl (\<lambda>q a.
               let m = MeasureAnnotation D (snd q) cb (InheritFrom K (Value2.Style a) seriesStyle)
                         (wrap_int (Left cb + Translate D xr (XValue a)))
                         (wrap_int (Bottom cb - Translate D yr (YValue a))) (Label a)
               in ((fst q)\<lparr>Top := MinInt D (Top (fst q)) (Top (fst m)),
                           Left := MinInt D (Left (fst q)) (Left (fst m)),
                           Right := MaxInt D (Right (fst q)) (Right (fst m)),
                           Bottom := MaxInt D (Bottom (fst q)) (Bottom (fst m))\<rparr>, snd m))
             (\<lparr>Top = MaxInt32, Left = MaxInt32, Right = 0, Bottom = 0\<rparr>, r) (Annotations ser)
        else (\<lparr>Top = MaxInt32, Left = MaxInt32, Right = 0, Bottom = 0\<rparr>, r))"
    unfolding Measure_def st Measure_loop_foldl by (simp only: Let_def)
next
  show "Render K D ser r cb xr yr d =
       (if IsZero K (AnnotationSeries.Style ser) \<or> Show (AnnotationSeries.Style ser)
        then foldl (\<lambda>q a. Annotation D q cb (InheritFrom K (Value2.Style a) seriesStyle)
                      (wrap_int (Left cb + Translate D xr (XValue a)))
                      (wrap_int (Bottom cb - Translate D yr (YValue a))) (Label a))
             r (Annotations ser)
        else r)"
    unfolding Render_def st Render_loop_foldl by (rule refl)
next
  show "snd (snd (Measure K (recording_draw D) ser (r, []) cb xr yr d)) =
       (if IsZero K (AnnotationSeries.Style ser) \<or> Show (AnnotationSeries.Style ser)
        then map (\<lambda>a. CallMeasureAnnotation cb (InheritFrom K (Value2.Style a) seriesStyle)
                    (wrap_int (Left cb + Translate D xr (XValue a)))
                    (wrap_int (Bottom cb - Translate D yr (YValue a))) (Label a))
               (Annotations ser)
        else [])"
    by (simp add: Measure_def st Measure_loop_recording Let_def)
next
  show "snd (Render K (recording_draw D) ser (r, []) cb xr yr d) =
       (if IsZero K (AnnotationSeries.Style ser) \<or> Show (AnnotationSeries.Style ser)
        then map (\<lambda>a. CallAnnotation cb (InheritFrom K (Value2.Style a) seriesStyle)
                    (wrap_int (Left cb + Translate D xr (XValue a)))
                    (wrap_int (Bottom cb - Translate D yr (YValue a))) (Label a))
               (Annotations ser)
        else [])"
    by (simp add: Render_def st Render_loop_recording)
qed

theorem AnnotationSeries_gate_witness:
  "\<not> (IsZero example_pkg (AnnotationSeries.Style example_series) \<or>
        Show (AnnotationSeries.Style example_series)) \<and>
   Measure example_pkg example_draw example_series 10 canvas () () Style_zero =
     (\<lparr>Top = 2147483647, Left = 2147483647, Right = 0, Bottom = 0\<rparr>, 10) \<and>
   Render example_pkg example_draw example_series 10 canvas () () Style_zero = 10 \<and>
   snd (snd (Measure example_pkg (recording_draw example_draw) example_series (10, []) canvas
     () () Style_zero)) = [] \<and>
   snd (Render example_pkg (recording_draw example_draw) example_series (10, []) canvas () ()
     Style_zero) = [] \<and>
   IsZero example_pkg
     (AnnotationSeries.Style (example_series\<lparr>AnnotationSeries.Style := Style_zero\<rparr>)) \<and>
   Measure example_pkg example_draw (example_series\<lparr>AnnotationSeries.Style := Style_zero\<rparr>)
     10 canvas () () Style_zero = (\<lparr>Top = 96, Left = 1, Right = 23, Bottom = 108\<rparr>, 10) \<and>
   snd (snd (Measure example_pkg (recording_draw example_draw)
     (example_series\<lparr>AnnotationSeries.Style := Style_zero\<rparr>) (10, []) canvas () ()
     Style_zero)) =
     [CallMeasureAnnotation canvas example_annotation_style 1 98 ''a'',
      CallMeasureAnnotation canvas example_annotation_style 3 96 ''bc''] \<and>
   snd (Render example_pkg (recording_draw example_draw)
     (example_series\<lparr>AnnotationSeries.Style := Style_zero\<rparr>) (10, []) canvas () ()
     Style_zero) =
     [CallAnnotation canvas example_annotation_style 1 98 ''a'',
      CallAnnotation canvas example_annotation_style 3 96 ''bc'']"
proof -
  have hidden: "\<not> (IsZero example_pkg (AnnotationSeries.Style example_series) \<or>
        Show (AnnotationSeries.Style example_series))"
    by (simp add: example_series_def IsZero_def example_defs)
  have zero: "IsZero example_pkg
      (AnnotationSeries.Style (example_series\<lparr>AnnotationSeries.Style := Style_zero\<rparr>))"
    by (simp add: IsZero_def example_defs)
  have vs: "Annotations (example_series\<lparr>AnnotationSeries.Style := Style_zero\<rparr>) =
      [\<lparr>XValue = 1, YValue = 2, Label = ''a'', Style = Style_zero\<rparr>,
       \<lparr>XValue = 3, YValue = 4, Label = ''bc'', Style = Style_zero\<rparr>]"
    by (simp add: example_series_def)
  have cv: "Left canvas = 0" "Bottom canvas = 100"
    by (simp_all add: canvas_def)
  note closed = AnnotationSeries_gate [OF refl, where K = example_pkg and D = example_draw
      and ser = example_series and r = 10 and cb = canvas and xr = "()" and yr = "()"
      and d = Style_zero]
  note opened = AnnotationSeries_gate [OF refl, where K = example_pkg and D = example_draw
      and ser = "example_series\<lparr>AnnotationSeries.Style := Style_zero\<rparr>" and r = 10
      and cb = canvas and xr = "()" and yr = "()" and d = Style_zero]
  from hidden closed have c: 
    "Measure example_pkg example_draw example_series 10 canvas () () Style_zero =
       (\<lparr>Top = 2147483647, Left = 2147483647, Right = 0, Bottom = 0\<rparr>, 10)"
    "Render example_pkg example_draw example_series 10 canvas () () Style_zero = 10"
    "snd (snd (Measure example_pkg (recording_draw example_draw) example_series (10, []) canvas
       () () Style_zero)) = []"
    "snd (Render example_pkg (recording_draw example_draw) example_series (10, []) canvas () ()
       Style_zero) = []"
    by (simp_all add: MaxInt32_def)
  from zero opened have o:
    "Measure example_pkg example_draw (example_series\<lparr>AnnotationSeries.Style := Style_zero\<rparr>)
       10 canvas () () Style_zero = (\<lparr>Top = 96, Left = 1, Right = 23, Bottom = 108\<rparr>, 10)"
    "snd (snd (Measure example_pkg (recording_draw example_draw)
       (example_series\<lparr>AnnotationSeries.Style := Style_zero\<rparr>) (10, []) canvas () ()
       Style_zero)) =
       [CallMeasureAnnotation canvas example_annotation_style 1 98 ''a'',
        CallMeasureAnnotation canvas example_annotation_style 3 96 ''bc'']"
    "snd (Render example_pkg (recording_draw example_draw)
       (example_series\<lparr>AnnotationSeries.Style := Style_zero\<rparr>) (10, []) canvas () ()
       Style_zero) =
       [CallAnnotation canvas example_annotation_style 1 98 ''a'',
        CallAnnotation canvas example_annotation_style 3 96 ''bc'']"
    by (simp_all add: vs cv example_series_style example_draw_simps wrap_int_examples
        MaxInt32_def Let_def)
  from hidden zero c o show ?thesis
    by simp
qed

end
